theory Spec2Isabelle
  imports Main "HOL-Library.Multiset"
begin

section \<open>Context-editing decision policy: \<open>determineEditStrategies\<close>\<close>

text \<open>
  The function \<^verbatim>\<open>determineEditStrategies\<close> of \<^verbatim>\<open>src/app/protected/layout.tsx\<close>
  (lines 1218-1305) decides which context-editing strategy, if any, is applied to a
  session before its history is replayed to the model. It reads a token count, a list of
  messages and an optional configuration object, and returns an array of edit strategies.

  TypeScript's \<^verbatim>\<open>number\<close> is modelled as \<open>int\<close>: token counts, thresholds and
  counters are integers in the program, and on integers \<^verbatim>\<open>Math.floor(t / 2)\<close> is
  \<open>t div 2\<close> (HOL's \<open>div\<close> rounds towards minus infinity, as \<^verbatim>\<open>Math.floor\<close> does).
  Nothing restricts the thresholds to non-negative values, so negative ones are kept.
\<close>

subsection \<open>Data model\<close>

text \<open>
  \<^verbatim>\<open>EditStrategy\<close> (lines 428-447): a union discriminated by \<^verbatim>\<open>type\<close>. The
  parameters of the two removal strategies are optional fields in the type.
\<close>

datatype EditStrategy =
    token_limit (limit_tokens: int)
  | remove_tool_result (keep_recent_n_tool_results: "int option")
                       (tool_result_placeholder: "string option")
  | remove_tool_call_params (keep_recent_n_tool_calls: "int option")

text \<open>\<^verbatim>\<open>TokenCounts\<close> (lines 452-454).\<close>

record TokenCounts =
  total_tokens :: int

text \<open>
  The field \<^verbatim>\<open>toolCalls\<close> of a message has type \<^verbatim>\<open>unknown\<close>: any JavaScript
  value. The loop only asks whether the value is truthy, whether it is an array, and for
  the length of the array, so values are modelled up to that structure.
\<close>

datatype js_value =
    JUndefined
  | JNull
  | JBool bool
  | JNum int
  | JNaN
  | JStr string
  | JArray "js_value list"
  | JObject "(string \<times> js_value) list"

text \<open>
  JavaScript's conversion to boolean: \<^verbatim>\<open>undefined\<close>, \<^verbatim>\<open>null\<close>, \<^verbatim>\<open>false\<close>,
  \<^verbatim>\<open>0\<close>, \<^verbatim>\<open>NaN\<close> and the empty string are falsy; every array and every object,
  also an empty one, is truthy.
\<close>

fun truthy :: "js_value \<Rightarrow> bool" where
  "truthy JUndefined = False"
| "truthy JNull = False"
| "truthy (JBool b) = b"
| "truthy (JNum n) = (n \<noteq> 0)"
| "truthy JNaN = False"
| "truthy (JStr s) = (s \<noteq> [])"
| "truthy (JArray xs) = True"
| "truthy (JObject fs) = True"

text \<open>
  The element type of the parameter \<^verbatim>\<open>messages\<close>:
  \<^verbatim>\<open>{ role: string; toolCalls?: unknown }\<close>. An absent \<^verbatim>\<open>toolCalls\<close> reads as
  \<^verbatim>\<open>undefined\<close>.
\<close>

record message =
  role :: string
  toolCalls :: js_value

text \<open>
  The parameter \<^verbatim>\<open>config\<close>: an optional object of four optional numbers. An omitted
  field is \<open>None\<close>; an omitted object is \<open>None\<close> at the call.
\<close>

record config =
  tokenLimitThreshold :: "int option"
  tokenLimitTarget :: "int option"
  toolResultThreshold :: "int option"
  toolCallThreshold :: "int option"

subsection \<open>Operators of the language\<close>

text \<open>Optional chaining \<^verbatim>\<open>config?.f\<close>: \<^verbatim>\<open>undefined\<close> when the object is absent.\<close>

definition opt_chain :: "'a option \<Rightarrow> ('a \<Rightarrow> 'b option) \<Rightarrow> 'b option" where
  "opt_chain obj f = (case obj of None \<Rightarrow> None | Some c \<Rightarrow> f c)"

text \<open>Nullish coalescing \<^verbatim>\<open>x ?? d\<close>.\<close>

definition nullish :: "'a option \<Rightarrow> 'a \<Rightarrow> 'a" where
  "nullish x d = (case x of None \<Rightarrow> d | Some v \<Rightarrow> v)"

subsection \<open>The counting loop\<close>

text \<open>
  The body of \<^verbatim>\<open>for (const msg of messages)\<close> (lines 1245-1253), as a step on the pair
  of counters \<open>(toolCallCount, toolResultCount)\<close>:
  \<^verbatim>\<open>
    if (msg.toolCalls) {
      const toolCalls = Array.isArray(msg.toolCalls) ? msg.toolCalls : [msg.toolCalls];
      toolCallCount += toolCalls.length;
    }
    if (msg.role === "tool") { toolResultCount++; }
  \<close>
  \<^verbatim>\<open>Array.isArray\<close> holds of the values built with \<open>JArray\<close> and of no other.
\<close>

definition count_step :: "message \<Rightarrow> int \<times> int \<Rightarrow> int \<times> int" where
  "count_step msg counts =
     (let (toolCallCount, toolResultCount) = counts;
          toolCallCount =
            (if truthy (toolCalls msg)
             then (let toolCalls = (case toolCalls msg of JArray xs \<Rightarrow> xs | v \<Rightarrow> [v])
                   in toolCallCount + int (length toolCalls))
             else toolCallCount);
          toolResultCount =
            (if role msg = ''tool'' then toolResultCount + 1 else toolResultCount)
      in (toolCallCount, toolResultCount))"

fun count_loop :: "message list \<Rightarrow> int \<times> int \<Rightarrow> int \<times> int" where
  "count_loop [] counts = counts"
| "count_loop (msg # rest) counts = count_loop rest (count_step msg counts)"

subsection \<open>The decision function\<close>

text \<open>
  Lines 1218-1305. The calls of \<^verbatim>\<open>console.debug\<close> only print values already
  computed and are left out. The array
  \<^verbatim>\<open>strategies\<close> is local; each \<^verbatim>\<open>push\<close> appends to it, and the second and third
  test read its length.
\<close>

definition determineEditStrategies ::
  "TokenCounts option \<Rightarrow> message list \<Rightarrow> config option \<Rightarrow> EditStrategy list" where
  "determineEditStrategies tokenCounts messages cfg =
     (let strategies = [];
          tokenLimitThreshold = nullish (opt_chain cfg tokenLimitThreshold) 80000;
          tokenLimitTarget = nullish (opt_chain cfg tokenLimitTarget) 70000;
          toolResultThreshold = nullish (opt_chain cfg toolResultThreshold) 5;
          toolCallThreshold = nullish (opt_chain cfg toolCallThreshold) 10
      in case tokenCounts of
           None \<Rightarrow> strategies
         | Some tc \<Rightarrow>
             if total_tokens tc = 0 then strategies
             else
               (let (toolCallCount, toolResultCount) = count_loop messages (0, 0);
                    strategies =
                      (if total_tokens tc > tokenLimitThreshold
                       then strategies @ [token_limit tokenLimitTarget]
                       else strategies);
                    strategies =
                      (if toolResultCount > toolResultThreshold \<and> length strategies = 0
                       then strategies @
                              [remove_tool_result
                                 (Some (max 3 (toolResultThreshold div 2))) (Some ''Done'')]
                       else strategies);
                    strategies =
                      (if toolCallCount > toolCallThreshold \<and> length strategies = 0
                       then strategies @
                              [remove_tool_call_params
                                 (Some (max 3 (toolCallThreshold div 2)))]
                       else strategies)
                in strategies))"

subsection \<open>The counts as the specification words them\<close>

text \<open>
  The number of entries one \<^verbatim>\<open>toolCalls\<close> value stands for: the length of an array,
  one for any other truthy value, none for a falsy or absent value.
\<close>

fun tool_call_entries :: "js_value \<Rightarrow> int" where
  "tool_call_entries (JArray xs) = int (length xs)"
| "tool_call_entries v = (if truthy v then 1 else 0)"

text \<open>The total number of tool-call entries across all messages.\<close>

definition toolCallCount_of :: "message list \<Rightarrow> int" where
  "toolCallCount_of messages =
     sum_list (map (\<lambda>msg. tool_call_entries (toolCalls msg)) messages)"

text \<open>The number of messages whose role is \<^verbatim>\<open>tool\<close>.\<close>

definition toolResultCount_of :: "message list \<Rightarrow> int" where
  "toolResultCount_of messages =
     int (length (filter (\<lambda>msg. role msg = ''tool'') messages))"

section \<open>The loop computes the two counts\<close>

lemma count_step_counts:
  "count_step msg (c, r) =
     (c + tool_call_entries (toolCalls msg), r + (if role msg = ''tool'' then 1 else 0))"
  by (cases "toolCalls msg") (simp_all add: count_step_def)

lemma count_loop_counts:
  "count_loop messages (c, r) =
     (c + toolCallCount_of messages, r + toolResultCount_of messages)"
proof (induction messages arbitrary: c r)
  case Nil
  show ?case by (simp add: toolCallCount_of_def toolResultCount_of_def)
next
  case (Cons msg rest)
  show ?case
    by (simp add: count_step_counts Cons.IH toolCallCount_of_def toolResultCount_of_def)
qed

text \<open>Both counts are sums over the multiset of messages, so their order is immaterial.\<close>

lemma toolCallCount_of_mset:
  "toolCallCount_of messages =
     sum_mset (image_mset (\<lambda>msg. tool_call_entries (toolCalls msg)) (mset messages))"
  unfolding toolCallCount_of_def by (metis mset_map sum_mset_sum_list)

lemma toolResultCount_of_mset:
  "toolResultCount_of messages =
     int (size (filter_mset (\<lambda>msg. role msg = ''tool'') (mset messages)))"
  unfolding toolResultCount_of_def by (metis mset_filter size_mset)

section \<open>The decision as a chain of tests\<close>

text \<open>
  The three guarded pushes onto the local array amount to a first-match chain: once one
  strategy has been pushed, the tests on \<^verbatim>\<open>strategies.length === 0\<close> fail.
\<close>

lemma determine_cases:
  "determineEditStrategies tokenCounts messages cfg =
     (case tokenCounts of
        None \<Rightarrow> []
      | Some tc \<Rightarrow>
          if total_tokens tc = 0 then []
          else if total_tokens tc > nullish (opt_chain cfg tokenLimitThreshold) 80000
          then [token_limit (nullish (opt_chain cfg tokenLimitTarget) 70000)]
          else if toolResultCount_of messages > nullish (opt_chain cfg toolResultThreshold) 5
          then [remove_tool_result
                  (Some (max 3 (nullish (opt_chain cfg toolResultThreshold) 5 div 2)))
                  (Some ''Done'')]
          else if toolCallCount_of messages > nullish (opt_chain cfg toolCallThreshold) 10
          then [remove_tool_call_params
                  (Some (max 3 (nullish (opt_chain cfg toolCallThreshold) 10 div 2)))]
          else [])"
  by (simp add: determineEditStrategies_def count_loop_counts Let_def split: option.split)

text \<open>
  The decision reads the messages through the two counts only.
\<close>

lemma determine_by_counts:
  assumes "toolResultCount_of messages' = toolResultCount_of messages"
    and "toolCallCount_of messages' = toolCallCount_of messages"
  shows "determineEditStrategies tokenCounts messages' cfg
           = determineEditStrategies tokenCounts messages cfg"
  using assms by (simp add: determine_cases)

section \<open>Properties of the policy\<close>

subsection \<open>Token-limit priority\<close>

text \<open>
  C1, as amended: for every configuration, also one whose target is not below its
  threshold, and every list of messages, if the token count is present, is not zero and
  exceeds the token-limit threshold in force, the result is exactly the one strategy
  \<open>token_limit\<close> carrying the target in force, whatever the two counts are.
\<close>

theorem C1_token_limit_priority:
  assumes "tokenCounts = Some tc"
    and "total_tokens tc \<noteq> 0"
    and "total_tokens tc > nullish (opt_chain cfg tokenLimitThreshold) 80000"
  shows "determineEditStrategies tokenCounts messages cfg
           = [token_limit (nullish (opt_chain cfg tokenLimitTarget) 70000)]"
  using assms by (simp add: determine_cases)

text \<open>
  An instance with a target above the threshold and both counts above their thresholds.
\<close>

theorem C1_token_limit_priority_witness:
  "determineEditStrategies (Some \<lparr>total_tokens = 200\<rparr>)
     [\<lparr>role = ''tool'', toolCalls = JUndefined\<rparr>,
      \<lparr>role = ''assistant'', toolCalls = JArray [JObject [], JObject []]\<rparr>]
     (Some \<lparr>tokenLimitThreshold = Some 100, tokenLimitTarget = Some 500,
             toolResultThreshold = Some 0, toolCallThreshold = Some 0\<rparr>)
   = [token_limit 500]"
  using C1_token_limit_priority
    [of "Some \<lparr>total_tokens = 200\<rparr>" "\<lparr>total_tokens = 200\<rparr>"
        "Some \<lparr>tokenLimitThreshold = Some 100, tokenLimitTarget = Some 500,
               toolResultThreshold = Some 0, toolCallThreshold = Some 0\<rparr>"
        "[\<lparr>role = ''tool'', toolCalls = JUndefined\<rparr>,
          \<lparr>role = ''assistant'', toolCalls = JArray [JObject [], JObject []]\<rparr>]"]
  by (simp add: nullish_def opt_chain_def)

text \<open>
  Without the condition on zero the statement fails: a token count of \<open>0\<close> exceeds a
  threshold of \<open>-1\<close>, and the test on \<^verbatim>\<open>total_tokens === 0\<close> (line 1237) returns the
  empty array before the threshold is compared.
\<close>

theorem C1_zero_tokens_counterexample:
  "total_tokens \<lparr>total_tokens = 0\<rparr>
     > nullish (opt_chain (Some \<lparr>tokenLimitThreshold = Some (- 1), tokenLimitTarget = None,
                             toolResultThreshold = None, toolCallThreshold = None\<rparr>) tokenLimitThreshold) 80000
   \<and> determineEditStrategies (Some \<lparr>total_tokens = 0\<rparr>) []
        (Some \<lparr>tokenLimitThreshold = Some (- 1), tokenLimitTarget = None,
                toolResultThreshold = None, toolCallThreshold = None\<rparr>)
     \<noteq> [token_limit
          (nullish (opt_chain (Some \<lparr>tokenLimitThreshold = Some (- 1), tokenLimitTarget = None,
                                   toolResultThreshold = None, toolCallThreshold = None\<rparr>) tokenLimitTarget) 70000)]"
  by (simp add: determineEditStrategies_def nullish_def opt_chain_def)

subsection \<open>At most one strategy\<close>

text \<open>
  C2: for every token count, list of messages and configuration, the returned array has
  at most one element.
\<close>

theorem C2_at_most_one:
  "length (determineEditStrategies tokenCounts messages cfg) \<le> 1"
  by (simp add: determine_cases split: option.split)

subsection \<open>No signal\<close>

text \<open>
  C3: for every list of messages and every configuration, the result is the empty array
  when the token count is absent and when it is present with \<open>total_tokens = 0\<close>. The
  function returns a value on both inputs: the branch is taken before the loop and raises
  nothing.
\<close>

theorem C3_no_signal:
  "determineEditStrategies None messages cfg = []
   \<and> determineEditStrategies (Some \<lparr>total_tokens = 0\<rparr>) messages cfg = []"
  by (simp add: determineEditStrategies_def)

subsection \<open>Tool-result trigger\<close>

text \<open>
  C4, as amended: if the token count is present and not zero, does not exceed the
  token-limit threshold, and the number of messages with role \<^verbatim>\<open>tool\<close> exceeds the
  tool-result threshold \<open>t\<close>, the result is exactly the one strategy
  \<open>remove_tool_result\<close> keeping \<open>max 3 (t div 2)\<close> results with the placeholder
  \<^verbatim>\<open>Done\<close>.
\<close>

theorem C4_tool_result_trigger:
  assumes "tokenCounts = Some tc"
    and "total_tokens tc \<noteq> 0"
    and "\<not> total_tokens tc > nullish (opt_chain cfg tokenLimitThreshold) 80000"
    and "toolResultCount_of messages > nullish (opt_chain cfg toolResultThreshold) 5"
  shows "determineEditStrategies tokenCounts messages cfg
           = [remove_tool_result
                (Some (max 3 (nullish (opt_chain cfg toolResultThreshold) 5 div 2)))
                (Some ''Done'')]"
  using assms by (simp add: determine_cases)

text \<open>
  The instance of the claim: 1000 tokens, no configuration, six messages of role
  \<^verbatim>\<open>tool\<close>.
\<close>

theorem C4_tool_result_trigger_witness:
  "determineEditStrategies (Some \<lparr>total_tokens = 1000\<rparr>)
     (replicate 6 \<lparr>role = ''tool'', toolCalls = JUndefined\<rparr>) None
   = [remove_tool_result (Some 3) (Some ''Done'')]"
  using C4_tool_result_trigger
    [of "Some \<lparr>total_tokens = 1000\<rparr>" "\<lparr>total_tokens = 1000\<rparr>" None
        "replicate 6 \<lparr>role = ''tool'', toolCalls = JUndefined\<rparr>"]
  by (simp add: nullish_def opt_chain_def toolResultCount_of_def eval_nat_numeral)

text \<open>
  With a token count of zero the same six messages give the empty array: zero does not
  exceed the threshold, the count does, and line 1237 returns before either is looked at.
\<close>

theorem C4_zero_tokens_counterexample:
  "\<not> total_tokens \<lparr>total_tokens = 0\<rparr> > nullish (opt_chain None tokenLimitThreshold) 80000
   \<and> toolResultCount_of (replicate 6 \<lparr>role = ''tool'', toolCalls = JUndefined\<rparr>)
       > nullish (opt_chain None toolResultThreshold) 5
   \<and> determineEditStrategies (Some \<lparr>total_tokens = 0\<rparr>)
        (replicate 6 \<lparr>role = ''tool'', toolCalls = JUndefined\<rparr>) None
     \<noteq> [remove_tool_result
          (Some (max 3 (nullish (opt_chain None toolResultThreshold) 5 div 2)))
          (Some ''Done'')]"
  by (simp add: determineEditStrategies_def nullish_def opt_chain_def
        toolResultCount_of_def eval_nat_numeral)

subsection \<open>Tool-call trigger\<close>

text \<open>
  C5, as amended: if the token count is present and not zero, does not exceed the
  token-limit threshold, the number of messages with role \<^verbatim>\<open>tool\<close> does not exceed
  the tool-result threshold, and the total number of tool-call entries exceeds the
  tool-call threshold \<open>t\<close>, the result is exactly the one strategy
  \<open>remove_tool_call_params\<close> keeping \<open>max 3 (t div 2)\<close> calls.
\<close>

theorem C5_tool_call_trigger:
  assumes "tokenCounts = Some tc"
    and "total_tokens tc \<noteq> 0"
    and "\<not> total_tokens tc > nullish (opt_chain cfg tokenLimitThreshold) 80000"
    and "\<not> toolResultCount_of messages > nullish (opt_chain cfg toolResultThreshold) 5"
    and "toolCallCount_of messages > nullish (opt_chain cfg toolCallThreshold) 10"
  shows "determineEditStrategies tokenCounts messages cfg
           = [remove_tool_call_params
                (Some (max 3 (nullish (opt_chain cfg toolCallThreshold) 10 div 2)))]"
  using assms by (simp add: determine_cases)

text \<open>
  The instance of the claim: 1000 tokens, no configuration, two messages of role
  \<^verbatim>\<open>tool\<close> and three assistant messages of four tool calls each, twelve entries.
\<close>

theorem C5_tool_call_trigger_witness:
  "determineEditStrategies (Some \<lparr>total_tokens = 1000\<rparr>)
     (replicate 2 \<lparr>role = ''tool'', toolCalls = JUndefined\<rparr> @
      replicate 3 \<lparr>role = ''assistant'', toolCalls = JArray (replicate 4 (JObject []))\<rparr>)
     None
   = [remove_tool_call_params (Some 5)]"
  using C5_tool_call_trigger
    [of "Some \<lparr>total_tokens = 1000\<rparr>" "\<lparr>total_tokens = 1000\<rparr>" None
        "replicate 2 \<lparr>role = ''tool'', toolCalls = JUndefined\<rparr> @
         replicate 3 \<lparr>role = ''assistant'', toolCalls = JArray (replicate 4 (JObject []))\<rparr>"]
  by (simp add: nullish_def opt_chain_def toolResultCount_of_def toolCallCount_of_def
        eval_nat_numeral)

text \<open>
  With a token count of zero the same messages give the empty array.
\<close>

theorem C5_zero_tokens_counterexample:
  "\<not> total_tokens \<lparr>total_tokens = 0\<rparr> > nullish (opt_chain None tokenLimitThreshold) 80000
   \<and> \<not> toolResultCount_of
          (replicate 2 \<lparr>role = ''tool'', toolCalls = JUndefined\<rparr> @
           replicate 3 \<lparr>role = ''assistant'', toolCalls = JArray (replicate 4 (JObject []))\<rparr>)
        > nullish (opt_chain None toolResultThreshold) 5
   \<and> toolCallCount_of
          (replicate 2 \<lparr>role = ''tool'', toolCalls = JUndefined\<rparr> @
           replicate 3 \<lparr>role = ''assistant'', toolCalls = JArray (replicate 4 (JObject []))\<rparr>)
        > nullish (opt_chain None toolCallThreshold) 10
   \<and> determineEditStrategies (Some \<lparr>total_tokens = 0\<rparr>)
          (replicate 2 \<lparr>role = ''tool'', toolCalls = JUndefined\<rparr> @
           replicate 3 \<lparr>role = ''assistant'', toolCalls = JArray (replicate 4 (JObject []))\<rparr>)
          None
     \<noteq> [remove_tool_call_params
          (Some (max 3 (nullish (opt_chain None toolCallThreshold) 10 div 2)))]"
  by (simp add: determineEditStrategies_def nullish_def opt_chain_def
        toolResultCount_of_def toolCallCount_of_def eval_nat_numeral)

subsection \<open>Defaults of the configuration\<close>

text \<open>
  C6: whichever of the four fields of the configuration are omitted, the function
  decides as the chain of tests run with the supplied value of each field that is given
  and, for each omitted field, its default: 80000 for \<open>tokenLimitThreshold\<close>, 70000
  for \<open>tokenLimitTarget\<close>, 5 for \<open>toolResultThreshold\<close>, 10 for
  \<open>toolCallThreshold\<close>. Any subset may be given, and an omitted configuration object
  stands for all four defaults.
\<close>

theorem C6_defaults:
  "determineEditStrategies tokenCounts messages
       (Some \<lparr>tokenLimitThreshold = a, tokenLimitTarget = b,
               toolResultThreshold = c, toolCallThreshold = d\<rparr>)
     = (case tokenCounts of
          None \<Rightarrow> []
        | Some tc \<Rightarrow>
            if total_tokens tc = 0 then []
            else if total_tokens tc > (case a of None \<Rightarrow> 80000 | Some v \<Rightarrow> v)
            then [token_limit (case b of None \<Rightarrow> 70000 | Some v \<Rightarrow> v)]
            else if toolResultCount_of messages > (case c of None \<Rightarrow> 5 | Some v \<Rightarrow> v)
            then [remove_tool_result
                    (Some (max 3 ((case c of None \<Rightarrow> 5 | Some v \<Rightarrow> v) div 2)))
                    (Some ''Done'')]
            else if toolCallCount_of messages > (case d of None \<Rightarrow> 10 | Some v \<Rightarrow> v)
            then [remove_tool_call_params
                    (Some (max 3 ((case d of None \<Rightarrow> 10 | Some v \<Rightarrow> v) div 2)))]
            else [])
   \<and> determineEditStrategies tokenCounts messages None
     = (case tokenCounts of
          None \<Rightarrow> []
        | Some tc \<Rightarrow>
            if total_tokens tc = 0 then []
            else if total_tokens tc > 80000 then [token_limit 70000]
            else if toolResultCount_of messages > 5
            then [remove_tool_result (Some (max 3 (5 div 2))) (Some ''Done'')]
            else if toolCallCount_of messages > 10
            then [remove_tool_call_params (Some (max 3 (10 div 2)))]
            else [])"
proof -
  have given: "nullish (opt_chain (Some g) f) dflt = (case f g of None \<Rightarrow> dflt | Some v \<Rightarrow> v)"
    for g :: config and f :: "config \<Rightarrow> int option" and dflt
    by (simp add: nullish_def opt_chain_def)
  have omitted: "nullish (opt_chain None f) dflt = dflt"
    for f :: "config \<Rightarrow> int option" and dflt
    by (simp add: nullish_def opt_chain_def)
  show ?thesis
    by (cases tokenCounts) (simp_all add: determine_cases given omitted)
qed

text \<open>
  The theorem at concrete inputs. With only \<open>toolResultThreshold\<close> supplied, as 2,
  three tool results trigger on the supplied value while 80001 tokens still trigger on
  the default threshold 80000 and carry the default target 70000; with only
  \<open>tokenLimitThreshold\<close> supplied, as 100, 101 tokens trigger on the supplied value.
  A supplied \<open>toolResultThreshold\<close> of 0 is kept as 0, not replaced by the default:
  one tool result triggers.
  With no configuration, 80000 tokens and five tool results trigger nothing, and six
  tool results keep \<open>max 3 (5 div 2) = 3\<close>.
\<close>

theorem C6_defaults_witness:
  "determineEditStrategies (Some \<lparr>total_tokens = 10\<rparr>)
       (replicate 3 \<lparr>role = ''tool'', toolCalls = JUndefined\<rparr>)
       (Some \<lparr>tokenLimitThreshold = None, tokenLimitTarget = None,
               toolResultThreshold = Some 2, toolCallThreshold = None\<rparr>)
     = [remove_tool_result (Some 3) (Some ''Done'')]
   \<and> determineEditStrategies (Some \<lparr>total_tokens = 80001\<rparr>)
       (replicate 3 \<lparr>role = ''tool'', toolCalls = JUndefined\<rparr>)
       (Some \<lparr>tokenLimitThreshold = None, tokenLimitTarget = None,
               toolResultThreshold = Some 2, toolCallThreshold = None\<rparr>)
     = [token_limit 70000]
   \<and> determineEditStrategies (Some \<lparr>total_tokens = 101\<rparr>)
       (replicate 3 \<lparr>role = ''tool'', toolCalls = JUndefined\<rparr>)
       (Some \<lparr>tokenLimitThreshold = Some 100, tokenLimitTarget = None,
               toolResultThreshold = None, toolCallThreshold = None\<rparr>)
     = [token_limit 70000]
   \<and> determineEditStrategies (Some \<lparr>total_tokens = 10\<rparr>)
       [\<lparr>role = ''tool'', toolCalls = JUndefined\<rparr>]
       (Some \<lparr>tokenLimitThreshold = None, tokenLimitTarget = None,
               toolResultThreshold = Some 0, toolCallThreshold = None\<rparr>)
     = [remove_tool_result (Some 3) (Some ''Done'')]
   \<and> determineEditStrategies (Some \<lparr>total_tokens = 80000\<rparr>)
       (replicate 5 \<lparr>role = ''tool'', toolCalls = JUndefined\<rparr>) None
     = []
   \<and> determineEditStrategies (Some \<lparr>total_tokens = 80000\<rparr>)
       (replicate 6 \<lparr>role = ''tool'', toolCalls = JUndefined\<rparr>) None
     = [remove_tool_result (Some 3) (Some ''Done'')]"
  using C6_defaults
    [of "Some \<lparr>total_tokens = 10\<rparr>"
        "replicate 3 \<lparr>role = ''tool'', toolCalls = JUndefined\<rparr>"
        None None "Some 2" None]
    C6_defaults
    [of "Some \<lparr>total_tokens = 80001\<rparr>"
        "replicate 3 \<lparr>role = ''tool'', toolCalls = JUndefined\<rparr>"
        None None "Some 2" None]
    C6_defaults
    [of "Some \<lparr>total_tokens = 101\<rparr>"
        "replicate 3 \<lparr>role = ''tool'', toolCalls = JUndefined\<rparr>"
        "Some 100" None None None]
    C6_defaults
    [of "Some \<lparr>total_tokens = 10\<rparr>"
        "[\<lparr>role = ''tool'', toolCalls = JUndefined\<rparr>]"
        None None "Some 0" None]
    C6_defaults
    [of "Some \<lparr>total_tokens = 80000\<rparr>"
        "replicate 5 \<lparr>role = ''tool'', toolCalls = JUndefined\<rparr>"]
    C6_defaults
    [of "Some \<lparr>total_tokens = 80000\<rparr>"
        "replicate 6 \<lparr>role = ''tool'', toolCalls = JUndefined\<rparr>"]
  by (simp add: toolResultCount_of_def toolCallCount_of_def eval_nat_numeral)

subsection \<open>The number of recent items kept\<close>

text \<open>
  C7: for every tool-result threshold and tool-call threshold, small ones included, the
  number of recent items carried by a \<open>remove_tool_result\<close> or
  \<open>remove_tool_call_params\<close> strategy in the result is \<open>max 3 (t div 2)\<close> for the
  threshold \<open>t\<close> in force, with floor division, and so is at least 3.
\<close>

theorem C7_keep_recent_floor:
  "(remove_tool_result k p \<in> set (determineEditStrategies tokenCounts messages cfg)
      \<longrightarrow> k = Some (max 3 (nullish (opt_chain cfg toolResultThreshold) 5 div 2))
          \<and> (\<exists>n. k = Some n \<and> 3 \<le> n))
   \<and> (remove_tool_call_params k' \<in> set (determineEditStrategies tokenCounts messages cfg)
      \<longrightarrow> k' = Some (max 3 (nullish (opt_chain cfg toolCallThreshold) 10 div 2))
          \<and> (\<exists>n. k' = Some n \<and> 3 \<le> n))"
  by (auto simp: determine_cases split: option.splits if_splits)

text \<open>
  Two triggering cases with small thresholds: a tool-result threshold of 2 with three
  tool results, and a tool-call threshold of 1 with two tool calls. Both keep 3.
\<close>

theorem C7_keep_recent_floor_witness:
  "remove_tool_result (Some 3) (Some ''Done'')
     \<in> set (determineEditStrategies (Some \<lparr>total_tokens = 10\<rparr>)
              (replicate 3 \<lparr>role = ''tool'', toolCalls = JUndefined\<rparr>)
              (Some \<lparr>tokenLimitThreshold = None, tokenLimitTarget = None,
                      toolResultThreshold = Some 2, toolCallThreshold = None\<rparr>))
   \<and> Some (3::int) = Some (max 3 (2 div 2))
   \<and> remove_tool_call_params (Some 3)
     \<in> set (determineEditStrategies (Some \<lparr>total_tokens = 10\<rparr>)
              [\<lparr>role = ''assistant'', toolCalls = JArray [JObject [], JObject []]\<rparr>]
              (Some \<lparr>tokenLimitThreshold = None, tokenLimitTarget = None,
                      toolResultThreshold = None, toolCallThreshold = Some 1\<rparr>))
   \<and> Some (3::int) = Some (max 3 (1 div 2))"
  using C7_keep_recent_floor
    [of "Some 3" "Some ''Done''" "Some \<lparr>total_tokens = 10\<rparr>"
        "replicate 3 \<lparr>role = ''tool'', toolCalls = JUndefined\<rparr>"
        "Some \<lparr>tokenLimitThreshold = None, tokenLimitTarget = None,
               toolResultThreshold = Some 2, toolCallThreshold = None\<rparr>"
        "Some 3"]
    C7_keep_recent_floor
    [of "Some 3" "Some ''Done''" "Some \<lparr>total_tokens = 10\<rparr>"
        "[\<lparr>role = ''assistant'', toolCalls = JArray [JObject [], JObject []]\<rparr>]"
        "Some \<lparr>tokenLimitThreshold = None, tokenLimitTarget = None,
               toolResultThreshold = None, toolCallThreshold = Some 1\<rparr>"
        "Some 3"]
  by (simp add: determineEditStrategies_def count_step_def nullish_def opt_chain_def
        eval_nat_numeral)

subsection \<open>Order of the messages\<close>

text \<open>
  C8: for every token count, configuration and list of messages, the result on any
  permutation of the messages equals the result on the messages: the decision depends on
  them through the two counts only (\<open>determine_by_counts\<close>), and neither count depends
  on the order.
\<close>

theorem C8_order_irrelevant:
  assumes "mset messages' = mset messages"
  shows "determineEditStrategies tokenCounts messages' cfg
           = determineEditStrategies tokenCounts messages cfg"
  using assms by (simp add: determine_cases toolCallCount_of_mset toolResultCount_of_mset)

text \<open>Three messages in two orders, with a tool-result threshold of 1.\<close>

theorem C8_order_irrelevant_witness:
  "mset [\<lparr>role = ''assistant'', toolCalls = JArray [JObject [], JObject []]\<rparr>,
         \<lparr>role = ''tool'', toolCalls = JUndefined\<rparr>,
         \<lparr>role = ''tool'', toolCalls = JUndefined\<rparr>]
     = mset [\<lparr>role = ''tool'', toolCalls = JUndefined\<rparr>,
             \<lparr>role = ''assistant'', toolCalls = JArray [JObject [], JObject []]\<rparr>,
             \<lparr>role = ''tool'', toolCalls = JUndefined\<rparr>]
   \<and> determineEditStrategies (Some \<lparr>total_tokens = 10\<rparr>)
        [\<lparr>role = ''assistant'', toolCalls = JArray [JObject [], JObject []]\<rparr>,
         \<lparr>role = ''tool'', toolCalls = JUndefined\<rparr>,
         \<lparr>role = ''tool'', toolCalls = JUndefined\<rparr>]
        (Some \<lparr>tokenLimitThreshold = None, tokenLimitTarget = None,
                toolResultThreshold = Some 1, toolCallThreshold = None\<rparr>)
     = determineEditStrategies (Some \<lparr>total_tokens = 10\<rparr>)
        [\<lparr>role = ''tool'', toolCalls = JUndefined\<rparr>,
         \<lparr>role = ''assistant'', toolCalls = JArray [JObject [], JObject []]\<rparr>,
         \<lparr>role = ''tool'', toolCalls = JUndefined\<rparr>]
        (Some \<lparr>tokenLimitThreshold = None, tokenLimitTarget = None,
                toolResultThreshold = Some 1, toolCallThreshold = None\<rparr>)
   \<and> determineEditStrategies (Some \<lparr>total_tokens = 10\<rparr>)
        [\<lparr>role = ''tool'', toolCalls = JUndefined\<rparr>,
         \<lparr>role = ''assistant'', toolCalls = JArray [JObject [], JObject []]\<rparr>,
         \<lparr>role = ''tool'', toolCalls = JUndefined\<rparr>]
        (Some \<lparr>tokenLimitThreshold = None, tokenLimitTarget = None,
                toolResultThreshold = Some 1, toolCallThreshold = None\<rparr>)
     = [remove_tool_result (Some 3) (Some ''Done'')]"
  using C8_order_irrelevant
    [of "[\<lparr>role = ''assistant'', toolCalls = JArray [JObject [], JObject []]\<rparr>,
          \<lparr>role = ''tool'', toolCalls = JUndefined\<rparr>,
          \<lparr>role = ''tool'', toolCalls = JUndefined\<rparr>]"
        "[\<lparr>role = ''tool'', toolCalls = JUndefined\<rparr>,
          \<lparr>role = ''assistant'', toolCalls = JArray [JObject [], JObject []]\<rparr>,
          \<lparr>role = ''tool'', toolCalls = JUndefined\<rparr>]"
        "Some \<lparr>total_tokens = 10\<rparr>"
        "Some \<lparr>tokenLimitThreshold = None, tokenLimitTarget = None,
               toolResultThreshold = Some 1, toolCallThreshold = None\<rparr>"]
  by (simp add: determineEditStrategies_def count_step_def nullish_def opt_chain_def)

subsection \<open>What one message adds to the count of tool calls\<close>

text \<open>
  C10: in the loop of \<^verbatim>\<open>determineEditStrategies\<close>, the count of tool calls is the sum
  over the messages of: the length of \<^verbatim>\<open>toolCalls\<close> when it is an array (0 for the
  empty array), 1 when it is truthy and not an array, and 0 when it is absent or falsy.
\<close>

theorem C10_tool_call_count:
  "fst (count_loop messages (0, 0))
     = (\<Sum>msg\<leftarrow>messages. case toolCalls msg of
                            JArray xs \<Rightarrow> int (length xs)
                          | v \<Rightarrow> (if truthy v then 1 else 0))"
proof -
  have "tool_call_entries v
          = (case v of JArray xs \<Rightarrow> int (length xs) | v \<Rightarrow> (if truthy v then 1 else 0))"
    for v
    by (cases v) simp_all
  then show ?thesis
    by (simp add: count_loop_counts toolCallCount_of_def)
qed

end
